theory Spec2Isabelle
  imports Complex_Main "HOL-Library.Sublist"
begin

section \<open>JavaScript values, strings and property lookup\<close>

text \<open>
  The repository holds two scripts that wire a body diagram (\<^verbatim>\<open>src/anatomy.js\<close>, first
  document, and \<^verbatim>\<open>src/unnamed/part_000\<close>) and a React component with a table of
  hotspot boxes (\<^verbatim>\<open>src/anatomy.js\<close>, second document).

  Both scripts keep their region table in an object literal and read it with
  \<^verbatim>\<open>muscleToTemplate[el.id]\<close>. A property read on an object literal answers with the
  literal's own entry when there is one and with the property inherited from
  \<^verbatim>\<open>Object.prototype\<close> otherwise, so the result is a JavaScript value, not always a
  string or \<^verbatim>\<open>undefined\<close>.
\<close>

datatype jsval =
    Undefined
  | Str string
  | NativeFn string   \<comment> \<open>a built-in function, by its name\<close>
  | ObjectProto       \<comment> \<open>the object \<^verbatim>\<open>Object.prototype\<close>\<close>

text \<open>The test \<^verbatim>\<open>if (tpl)\<close>: only \<^verbatim>\<open>undefined\<close> and the empty string are falsy here.\<close>

fun truthy :: "jsval \<Rightarrow> bool" where
  "truthy Undefined = False"
| "truthy (Str s) = (s \<noteq> [])"
| "truthy (NativeFn n) = True"
| "truthy ObjectProto = True"

text \<open>
  The conversion to a string that \<^verbatim>\<open>document.getElementById\<close> applies to its argument.
  The text of a built-in function is the one V8 prints.
\<close>

fun toDOMString :: "jsval \<Rightarrow> string" where
  "toDOMString Undefined = ''undefined''"
| "toDOMString (Str s) = s"
| "toDOMString (NativeFn n) = ''function '' @ n @ ''() { [native code] }''"
| "toDOMString ObjectProto = ''[object Object]''"

text \<open>The properties every object literal inherits from \<^verbatim>\<open>Object.prototype\<close>.\<close>

definition inheritedFunctions :: "string list" where
  "inheritedFunctions =
     [''hasOwnProperty'', ''isPrototypeOf'', ''propertyIsEnumerable'', ''toLocaleString'',
      ''toString'', ''valueOf'', ''__defineGetter__'', ''__defineSetter__'',
      ''__lookupGetter__'', ''__lookupSetter__'']"

definition objectPrototype :: "string \<Rightarrow> jsval" where
  "objectPrototype k =
     (if k = ''constructor'' then NativeFn ''Object''
      else if k = ''__proto__'' then ObjectProto
      else if k \<in> set inheritedFunctions then NativeFn k
      else Undefined)"

text \<open>\<^verbatim>\<open>obj[k]\<close> for an object literal with the given entries.\<close>

definition getProp :: "(string \<times> string) list \<Rightarrow> string \<Rightarrow> jsval" where
  "getProp obj k = (case map_of obj k of Some v \<Rightarrow> Str v | None \<Rightarrow> objectPrototype k)"

text \<open>
  \<^verbatim>\<open>s.replace(pat, rep)\<close> with a string pattern: the first occurrence only. The
  replacement text used by the scripts is empty, so the \<^verbatim>\<open>$\<close> patterns of a
  replacement string play no part.
\<close>

fun str_replace :: "string \<Rightarrow> string \<Rightarrow> string \<Rightarrow> string" where
  "str_replace pat rep [] = (if pat = [] then rep else [])"
| "str_replace pat rep (c # cs) =
     (if prefix pat (c # cs) then rep @ drop (length pat) (c # cs)
      else c # str_replace pat rep cs)"

section \<open>The region tables and the route\<close>

definition ROUTE_PREFIX :: string where
  "ROUTE_PREFIX = ''#/workouts/diagram''"

text \<open>\<^verbatim>\<open>muscleToTemplate\<close> of \<^verbatim>\<open>src/anatomy.js\<close>, lines 6 to 22, in source order.\<close>

definition muscleToTemplate :: "(string \<times> string) list" where
  "muscleToTemplate =
     [(''chest'', ''chest-template''),
      (''biceps'', ''biceps-template''),
      (''biceps2'', ''biceps2-template''),
      (''abs'', ''abs-template''),
      (''quadsL'', ''quadsL-template''),
      (''quadsR'', ''quadsR-template''),
      (''traps'', ''traps-template''),
      (''deltsL'', ''deltsL-template''),
      (''deltsR'', ''deltsR-template''),
      (''lats'', ''lats-template''),
      (''glutes'', ''glutes-template''),
      (''hamsL'', ''hamsL-template''),
      (''hamsR'', ''hamsR-template'')]"

text \<open>\<^verbatim>\<open>muscleToTemplate\<close> of \<^verbatim>\<open>src/unnamed/part_000\<close>, lines 4 to 20, in source order.\<close>

definition muscleToTemplate_autowire :: "(string \<times> string) list" where
  "muscleToTemplate_autowire =
     [(''chest'', ''chest-template''),
      (''biceps'', ''biceps-template''),
      (''biceps2'', ''biceps2-template''),
      (''abs'', ''abs-template''),
      (''quadsL'', ''quadsL-template''),
      (''quadsR'', ''quadsR-template''),
      (''traps'', ''traps-template''),
      (''deltsL'', ''deltsL-template''),
      (''deltsR'', ''deltsR-template''),
      (''lats'', ''lats-template''),
      (''glutes'', ''glutes-template''),
      (''hamsL'', ''hamsL-template''),
      (''hamsR'', ''hamsR-template'')]"

text \<open>
  \<^verbatim>\<open>isDiagramRoute\<close> (\<^verbatim>\<open>src/anatomy.js\<close>, line 25), as a function of
  \<^verbatim>\<open>location.hash\<close>: \<^verbatim>\<open>(location.hash || '').startsWith(ROUTE_PREFIX)\<close>.
\<close>

definition isDiagramRoute :: "string \<Rightarrow> bool" where
  "isDiagramRoute hash = prefix ROUTE_PREFIX (if hash = [] then [] else hash)"

text \<open>
  The route \<^verbatim>\<open>showTemplate\<close> writes for a template identifier
  (\<^verbatim>\<open>src/anatomy.js\<close>, line 35, and \<^verbatim>\<open>src/unnamed/part_000\<close>, line 29, which spells
  the prefix out).
\<close>

definition routeOf :: "string \<Rightarrow> string" where
  "routeOf tplId = ROUTE_PREFIX @ ''/'' @ str_replace ''-template'' '''' tplId"

definition routeOf_autowire :: "string \<Rightarrow> string" where
  "routeOf_autowire tplId = ''#/workouts/diagram/'' @ str_replace ''-template'' '''' tplId"



section \<open>The page: surface, document, listeners\<close>

text \<open>
  The surface is the \<^verbatim>\<open>section.card\<close> element the binders are handed. It exposes
  what the three \<^verbatim>\<open>querySelector\<close> calls find (each may be missing); the three parts
  are distinct elements, none inside another. A view container exposes its
  \<^verbatim>\<open>style.display\<close> and the elements that \<^verbatim>\<open>querySelectorAll('[id]')\<close> finds in it,
  in document order, where an enclosing element comes before the elements inside it.
  Such an element may lie inside another one of the list: \<open>inside\<close> is the position,
  in the same list, of the nearest enclosing element that has an id. Its \<open>kind\<close> is the
  interface it implements: \<^verbatim>\<open>dataset\<close>, \<^verbatim>\<open>tabIndex\<close> and \<^verbatim>\<open>style\<close> exist on HTML and
  SVG elements alike, the \<^verbatim>\<open>click\<close> method on HTML elements only.
\<close>

datatype script = AnatomyJs | AutowireJs

text \<open>
  A listener on a hit element: the keydown or the click closure, of the script that
  installed it (each script's closure reads its own table).
\<close>

datatype listener = KeydownL script | ClickL script

datatype elementKind = HTMLElement | SVGElement

record hit =
  el_id :: string
  kind :: elementKind
  inside :: "nat option"
  role :: "string option"
  tabIndex :: int
  listeners :: "listener list"

record container =
  display :: string
  hits :: "hit list"

text \<open>
  The toggle button. Each click listener is one closure of a binder run; the entry is
  the current value of the \<^verbatim>\<open>isFront\<close> variable that closure owns.
\<close>

record toggle =
  textContent :: string
  clickListeners :: "bool list"

record surface =
  bound :: "string option"   \<comment> \<open>\<^verbatim>\<open>root.dataset.bound\<close>\<close>
  frontView :: "container option"
  backView :: "container option"
  toggleViewBtn :: "toggle option"

text \<open>
  What \<^verbatim>\<open>document.getElementById\<close> can find outside \<^verbatim>\<open>#app\<close>: a
  \<^verbatim>\<open>template\<close> element, whose content holds a surface or none, or an element of
  another kind, which has no \<^verbatim>\<open>content\<close>.
\<close>

datatype element = Template "surface option" | NonTemplate

datatype error = TypeError

text \<open>
  The document: \<^verbatim>\<open>location.hash\<close>; the \<^verbatim>\<open>#app\<close> element (\<open>None\<close> when the page
  has none) with the first \<^verbatim>\<open>section.card\<close> inside it; the elements found by id
  outside \<^verbatim>\<open>#app\<close>, in document order; the lines written by \<^verbatim>\<open>console.warn\<close>; the
  exceptions that left a listener uncaught.
\<close>

record document =
  hash :: string
  app :: "surface option option"
  byId :: "(string \<times> element) list"
  warnings :: "(string \<times> string) list"
  uncaught :: "error list"

definition getElementById :: "document \<Rightarrow> string \<Rightarrow> element option" where
  "getElementById d i = map_of (byId d) i"

section \<open>showTemplate and the hit handlers\<close>

text \<open>
  \<^verbatim>\<open>t.content.cloneNode(true)\<close>: a deep copy. Attributes and inline styles are
  copied, event listeners are not.
\<close>

definition cloneNode :: "surface \<Rightarrow> surface" where
  "cloneNode r =
     r\<lparr>frontView :=
         map_option (\<lambda>f. f\<lparr>hits := map (\<lambda>h. h\<lparr>listeners := []\<rparr>) (hits f)\<rparr>) (frontView r),
       backView :=
         map_option (\<lambda>b. b\<lparr>hits := map (\<lambda>h. h\<lparr>listeners := []\<rparr>) (hits b)\<rparr>) (backView r),
       toggleViewBtn := map_option (\<lambda>t. t\<lparr>clickListeners := []\<rparr>) (toggleViewBtn r)\<rparr>"

text \<open>
  \<^verbatim>\<open>showTemplate\<close> (\<^verbatim>\<open>src/anatomy.js\<close>, lines 28 to 36). The argument is whatever the
  table lookup gave. The result is the exception thrown, if any, and the document as the
  call left it: \<^verbatim>\<open>app.innerHTML = ''\<close> has run before \<^verbatim>\<open>t.content.cloneNode\<close> can
  throw, and the clone is in place before \<^verbatim>\<open>tplId.replace\<close> can. A value of a kind
  other than string has no \<^verbatim>\<open>replace\<close> method. The route written starts with
  \<^verbatim>\<open>#\<close> and holds no character that \<^verbatim>\<open>location.hash\<close> would escape, so it is read
  back as written.
\<close>

definition showTemplate :: "jsval \<Rightarrow> document \<Rightarrow> error option \<times> document" where
  "showTemplate tplId d =
     (case getElementById d (toDOMString tplId) of
        None \<Rightarrow> (None, d)
      | Some t \<Rightarrow>
          (case app d of
             None \<Rightarrow> (None, d)
           | Some old \<Rightarrow>
               (case t of
                  NonTemplate \<Rightarrow> (Some TypeError, d\<lparr>app := Some None\<rparr>)
                | Template c \<Rightarrow>
                    (case tplId of
                       Str s \<Rightarrow>
                         (None, d\<lparr>app := Some (map_option cloneNode c), hash := routeOf s\<rparr>)
                     | _ \<Rightarrow> (Some TypeError, d\<lparr>app := Some (map_option cloneNode c)\<rparr>)))))"

text \<open>\<^verbatim>\<open>showTemplate\<close> of \<^verbatim>\<open>src/unnamed/part_000\<close>, lines 22 to 30.\<close>

definition showTemplate_autowire :: "jsval \<Rightarrow> document \<Rightarrow> error option \<times> document" where
  "showTemplate_autowire tplId d =
     (case getElementById d (toDOMString tplId) of
        None \<Rightarrow> (None, d)
      | Some t \<Rightarrow>
          (case app d of
             None \<Rightarrow> (None, d)
           | Some old \<Rightarrow>
               (case t of
                  NonTemplate \<Rightarrow> (Some TypeError, d\<lparr>app := Some None\<rparr>)
                | Template c \<Rightarrow>
                    (case tplId of
                       Str s \<Rightarrow>
                         (None,
                          d\<lparr>app := Some (map_option cloneNode c), hash := routeOf_autowire s\<rparr>)
                     | _ \<Rightarrow> (Some TypeError, d\<lparr>app := Some (map_option cloneNode c)\<rparr>)))))"

text \<open>
  The click closure of a hit element (\<^verbatim>\<open>src/anatomy.js\<close>, lines 66 to 70;
  \<^verbatim>\<open>src/unnamed/part_000\<close>, lines 60 to 64).
\<close>

definition warn :: "string \<Rightarrow> document \<Rightarrow> document" where
  "warn i d = d\<lparr>warnings := warnings d @ [(''No template mapped for'', i)]\<rparr>"

fun clickHandler :: "script \<Rightarrow> hit \<Rightarrow> document \<Rightarrow> error option \<times> document" where
  "clickHandler AnatomyJs el d =
     (let tpl = getProp muscleToTemplate (el_id el)
      in if truthy tpl then showTemplate tpl d else (None, warn (el_id el) d))"
| "clickHandler AutowireJs el d =
     (let tpl = getProp muscleToTemplate_autowire (el_id el)
      in if truthy tpl then showTemplate_autowire tpl d else (None, warn (el_id el) d))"

text \<open>
  An exception that leaves a listener is reported and the remaining listeners still
  run.
\<close>

fun report :: "error option \<times> document \<Rightarrow> document" where
  "report (None, d) = d"
| "report (Some e, d) = d\<lparr>uncaught := uncaught d @ [e]\<rparr>"

text \<open>The click listeners of one element, in the order they were installed.\<close>

fun runClick :: "hit \<Rightarrow> listener list \<Rightarrow> document \<Rightarrow> document" where
  "runClick el [] d = d"
| "runClick el (ClickL sc # ls) d = runClick el ls (report (clickHandler sc el d))"
| "runClick el (KeydownL sc # ls) d = runClick el ls d"

text \<open>
  The hit elements an event on the \<open>i\<close>-th element of a container's list passes: the
  element itself, then the elements with an id that enclose it, innermost first.
\<close>

function eventPath :: "hit list \<Rightarrow> nat \<Rightarrow> hit list" where
  "eventPath hs i =
     (if i < length hs then
        hs ! i #
        (case inside (hs ! i) of
           None \<Rightarrow> []
         | Some p \<Rightarrow> if p < i then eventPath hs p else [])
      else [])"
  by pat_completeness auto
termination
  by (relation "measure snd") auto

text \<open>
  A click event, given the path of its target: it runs the click listeners of the
  target, then bubbles to the enclosing elements. This is a pointer activation of the
  target, and what \<^verbatim>\<open>target.click()\<close> dispatches.
\<close>

fun clickEvent :: "hit list \<Rightarrow> document \<Rightarrow> document" where
  "clickEvent [] d = d"
| "clickEvent (el # outer) d = clickEvent outer (runClick el (listeners el) d)"

text \<open>A click on a hit element that no other element with an id encloses.\<close>

definition click :: "hit \<Rightarrow> document \<Rightarrow> document" where
  "click el d = clickEvent [el] d"

text \<open>
  The keydown closure of the element \<open>el\<close>, which the elements \<open>outer\<close> enclose
  (\<^verbatim>\<open>src/anatomy.js\<close>, lines 63 to 65; \<^verbatim>\<open>src/unnamed/part_000\<close>, lines 56 to 58), the
  same text in both scripts. The flag is the event's \<^verbatim>\<open>defaultPrevented\<close>. On an element
  without a \<^verbatim>\<open>click\<close> method the call \<^verbatim>\<open>el.click()\<close> throws, after
  \<^verbatim>\<open>preventDefault\<close> has run.
\<close>

definition keydownHandler ::
  "string \<Rightarrow> hit \<Rightarrow> hit list \<Rightarrow> bool \<times> document \<Rightarrow> error option \<times> bool \<times> document"
where
  "keydownHandler key el outer st =
     (if key = ''Enter'' \<or> key = '' '' then
        (if kind el = HTMLElement then (None, True, clickEvent (el # outer) (snd st))
         else (Some TypeError, True, snd st))
      else (None, st))"

text \<open>The keydown listeners of one element, in the order they were installed.\<close>

fun runKeydown ::
  "string \<Rightarrow> hit \<Rightarrow> hit list \<Rightarrow> listener list \<Rightarrow> bool \<times> document \<Rightarrow> bool \<times> document"
where
  "runKeydown key el outer [] st = st"
| "runKeydown key el outer (KeydownL sc # ls) st =
     runKeydown key el outer ls
       (case keydownHandler key el outer st of (e, p, d) \<Rightarrow> (p, report (e, d)))"
| "runKeydown key el outer (ClickL sc # ls) st = runKeydown key el outer ls st"

text \<open>
  A keydown event, given the path of its target: it runs the keydown listeners of the
  target, then bubbles to the enclosing elements, whose keydown closures call the
  \<^verbatim>\<open>click\<close> method of their own element.
\<close>

fun keydownBubble :: "string \<Rightarrow> hit list \<Rightarrow> bool \<times> document \<Rightarrow> bool \<times> document" where
  "keydownBubble key [] st = st"
| "keydownBubble key (el # outer) st =
     keydownBubble key outer (runKeydown key el outer (listeners el) st)"

definition keydownEvent :: "string \<Rightarrow> hit list \<Rightarrow> document \<Rightarrow> bool \<times> document" where
  "keydownEvent key path d = keydownBubble key path (False, d)"

section \<open>The binders\<close>

text \<open>The body of \<^verbatim>\<open>clickable.forEach\<close>, for the script that runs it.\<close>

definition bindHit :: "script \<Rightarrow> hit \<Rightarrow> hit" where
  "bindHit sc el =
     el\<lparr>role := Some ''button'', tabIndex := 0,
        listeners := listeners el @ [KeydownL sc, ClickL sc]\<rparr>"

text \<open>
  \<^verbatim>\<open>bindDiagram\<close> (\<^verbatim>\<open>src/anatomy.js\<close>, lines 38 to 75). The argument is \<open>None\<close> for a
  null root. The result is the returned boolean and the root as the call left it.
\<close>

definition bindDiagram :: "surface option \<Rightarrow> bool \<times> surface option" where
  "bindDiagram rootEl =
     (case rootEl of
        None \<Rightarrow> (False, None)
      | Some r \<Rightarrow>
          if bound r = Some ''1'' then (False, Some r)
          else
            (case frontView r of
               None \<Rightarrow> (False, Some r)
             | Some front \<Rightarrow>
                 (case backView r of
                    None \<Rightarrow> (False, Some r)
                  | Some back \<Rightarrow>
                      (case toggleViewBtn r of
                         None \<Rightarrow> (False, Some r)
                       | Some toggleBtn \<Rightarrow>
                           (True,
                            Some (r\<lparr>frontView :=
                                      Some (front\<lparr>display := ''block'',
                                                  hits := map (bindHit AnatomyJs) (hits front)\<rparr>),
                                    backView :=
                                      Some (back\<lparr>display := ''none'',
                                                 hits := map (bindHit AnatomyJs) (hits back)\<rparr>),
                                    toggleViewBtn :=
                                      Some (toggleBtn\<lparr>textContent := ''Show Back View'',
                                                     clickListeners :=
                                                       clickListeners toggleBtn @ [True]\<rparr>),
                                    bound := Some ''1''\<rparr>))))))"

text \<open>
  \<^verbatim>\<open>initBodyDiagram\<close> (\<^verbatim>\<open>src/unnamed/part_000\<close>, lines 32 to 68). Its only caller,
  \<^verbatim>\<open>tryInit\<close>, hands it an element, never null. It reads and writes no marker.
\<close>

definition initBodyDiagram :: "surface \<Rightarrow> bool \<times> surface" where
  "initBodyDiagram r =
     (case frontView r of
        None \<Rightarrow> (False, r)
      | Some front \<Rightarrow>
          (case backView r of
             None \<Rightarrow> (False, r)
           | Some back \<Rightarrow>
               (case toggleViewBtn r of
                  None \<Rightarrow> (False, r)
                | Some toggleBtn \<Rightarrow>
                    (True,
                     r\<lparr>frontView :=
                         Some (front\<lparr>display := ''block'',
                                     hits := map (bindHit AutowireJs) (hits front)\<rparr>),
                       backView :=
                         Some (back\<lparr>display := ''none'',
                                    hits := map (bindHit AutowireJs) (hits back)\<rparr>),
                       toggleViewBtn :=
                         Some (toggleBtn\<lparr>textContent := ''Show Back View'',
                                        clickListeners :=
                                          clickListeners toggleBtn @ [True]\<rparr>)\<rparr>))))"

text \<open>
  The three writes of the toggle's click closure for a value of \<^verbatim>\<open>isFront\<close>
  (\<^verbatim>\<open>src/anatomy.js\<close>, lines 54 to 56; \<^verbatim>\<open>src/unnamed/part_000\<close>, lines 46 to 48).
\<close>

definition showView :: "bool \<Rightarrow> surface \<Rightarrow> surface" where
  "showView isFront r =
     r\<lparr>frontView :=
         map_option (\<lambda>f. f\<lparr>display := (if isFront then ''block'' else ''none'')\<rparr>)
           (frontView r),
       backView :=
         map_option (\<lambda>b. b\<lparr>display := (if isFront then ''none'' else ''block'')\<rparr>)
           (backView r),
       toggleViewBtn :=
         map_option
           (\<lambda>t. t\<lparr>textContent :=
                     (if isFront then ''Show Back View'' else ''Show Front View'')\<rparr>)
           (toggleViewBtn r)\<rparr>"

text \<open>
  The toggle's click closure (\<^verbatim>\<open>src/anatomy.js\<close>, lines 52 to 57;
  \<^verbatim>\<open>src/unnamed/part_000\<close>, lines 44 to 49): it flips its own \<^verbatim>\<open>isFront\<close>, then
  writes the two displays and the label. The result is the new \<^verbatim>\<open>isFront\<close> and the
  surface. A listener runs to its end before anything else can look at the page, so its
  three writes are one transition.
\<close>

definition toggleHandler :: "bool \<Rightarrow> surface \<Rightarrow> bool \<times> surface" where
  "toggleHandler isFront r = (let isFront' = \<not> isFront in (isFront', showView isFront' r))"

text \<open>The toggle's listeners run in the order they were installed.\<close>

fun runToggle :: "bool list \<Rightarrow> surface \<Rightarrow> bool list \<times> surface" where
  "runToggle [] r = ([], r)"
| "runToggle (b # bs) r =
     (let (b', r') = toggleHandler b r; (bs', r'') = runToggle bs r' in (b' # bs', r''))"

text \<open>One activation of the toggle control.\<close>

definition toggleClick :: "surface \<Rightarrow> surface" where
  "toggleClick r =
     (case toggleViewBtn r of
        None \<Rightarrow> r
      | Some t \<Rightarrow>
          (let (bs, r') = runToggle (clickListeners t) r
           in r'\<lparr>toggleViewBtn :=
                   map_option (\<lambda>t'. t'\<lparr>clickListeners := bs\<rparr>) (toggleViewBtn r')\<rparr>))"

text \<open>What an observer of the surface sees and counts.\<close>

definition visible :: "container \<Rightarrow> bool" where
  "visible c = (display c \<noteq> ''none'')"

definition hitListeners :: "container option \<Rightarrow> nat" where
  "hitListeners c = (case c of None \<Rightarrow> 0 | Some v \<Rightarrow> sum_list (map (\<lambda>h. length (listeners h)) (hits v)))"

definition toggleListeners :: "toggle option \<Rightarrow> nat" where
  "toggleListeners t = (case t of None \<Rightarrow> 0 | Some b \<Rightarrow> length (clickListeners b))"

definition listenerCount :: "surface \<Rightarrow> nat" where
  "listenerCount r =
     toggleListeners (toggleViewBtn r) + hitListeners (frontView r) + hitListeners (backView r)"

section \<open>The mount watchers\<close>

text \<open>\<^verbatim>\<open>app?.querySelector('section.card')\<close>, and the \<^verbatim>\<open>hasDiagram\<close> test of line 85.\<close>

definition querySection :: "document \<Rightarrow> surface option" where
  "querySection d = (case app d of None \<Rightarrow> None | Some c \<Rightarrow> c)"

definition hasDiagram :: "surface option \<Rightarrow> bool" where
  "hasDiagram section =
     (case section of
        None \<Rightarrow> False
      | Some s \<Rightarrow> \<not> (frontView s = None \<and> backView s = None))"

text \<open>
  The state of one \<^verbatim>\<open>tryBindWithRetries\<close> activation: its \<^verbatim>\<open>tries\<close> variable, the
  page, and a count of the calls of \<^verbatim>\<open>bindDiagram\<close> it has made (a ghost field, for
  the statements about the number of bind calls).
\<close>

record watcher =
  tries :: nat
  bindCalls :: nat
  page :: document

datatype tickResult = BoundOk | GaveUp | Scheduled

text \<open>Lines 88 and 89: count the attempt, then give up or schedule the next tick.\<close>

definition afterMiss :: "nat \<Rightarrow> watcher \<Rightarrow> tickResult \<times> watcher" where
  "afterMiss maxTries w =
     (let w' = w\<lparr>tries := tries w + 1\<rparr>
      in if tries w' \<ge> maxTries then (GaveUp, w') else (Scheduled, w'))"

text \<open>
  One run of the \<^verbatim>\<open>tick\<close> closure (\<^verbatim>\<open>src/anatomy.js\<close>, lines 82 to 90).
  \<^verbatim>\<open>bindDiagram\<close> is called only when \<^verbatim>\<open>hasDiagram\<close> is truthy.
\<close>

definition tick :: "nat \<Rightarrow> watcher \<Rightarrow> tickResult \<times> watcher" where
  "tick maxTries w =
     (let section = querySection (page w)
      in if hasDiagram section then
           (let (ok, section') = bindDiagram section;
                w' = w\<lparr>bindCalls := bindCalls w + 1,
                        page := (page w)\<lparr>app := Some section'\<rparr>\<rparr>
            in if ok then (BoundOk, w') else afterMiss maxTries w')
         else afterMiss maxTries w)"

text \<open>
  The ticks of one activation. Between two ticks the rest of the page runs: \<open>env k\<close> is
  what it does to the document during the wait that follows the \<open>k\<close>-th miss. The
  last component is the time on the timer's clock, in milliseconds since the first tick.
\<close>

function runTicks ::
  "nat \<Rightarrow> nat \<Rightarrow> (nat \<Rightarrow> document \<Rightarrow> document) \<Rightarrow> watcher \<Rightarrow> nat \<Rightarrow> tickResult \<times> watcher \<times> nat"
where
  "runTicks maxTries delayMs env w clock =
     (case tick maxTries w of
        (Scheduled, w') \<Rightarrow>
          runTicks maxTries delayMs env (w'\<lparr>page := env (tries w') (page w')\<rparr>) (clock + delayMs)
      | (res, w') \<Rightarrow> (res, w', clock))"
  by pat_completeness auto
termination
  apply (relation "measure (\<lambda>(maxTries, delayMs, env, w, clock). maxTries - tries w)")
   apply simp
  apply (auto simp: tick_def afterMiss_def Let_def split: if_splits prod.splits)
  done

text \<open>
  \<^verbatim>\<open>tryBindWithRetries\<close> (\<^verbatim>\<open>src/anatomy.js\<close>, lines 78 to 93). \<open>None\<close>: the route is
  not a diagram route and the function returned at once.
\<close>

definition tryBindWithRetries ::
  "nat \<Rightarrow> nat \<Rightarrow> (nat \<Rightarrow> document \<Rightarrow> document) \<Rightarrow> document \<Rightarrow> (tickResult \<times> watcher \<times> nat) option"
where
  "tryBindWithRetries maxTries delayMs env d =
     (if \<not> isDiagramRoute (hash d) then None
      else Some (runTicks maxTries delayMs env \<lparr>tries = 0, bindCalls = 0, page = d\<rparr> 0))"

text \<open>
  The page as the tick that follows \<open>k\<close> further misses finds it, for a watcher that
  has counted \<open>t\<close> misses and left the page as \<open>d\<close>.
\<close>

fun pageAfter :: "(nat \<Rightarrow> document \<Rightarrow> document) \<Rightarrow> nat \<Rightarrow> document \<Rightarrow> nat \<Rightarrow> document" where
  "pageAfter env t d 0 = d"
| "pageAfter env t d (Suc k) = env (t + Suc k) (pageAfter env t d k)"

text \<open>
  \<^verbatim>\<open>tryInit\<close> (\<^verbatim>\<open>src/unnamed/part_000\<close>, lines 70 to 78), which the script runs on
  \<^verbatim>\<open>DOMContentLoaded\<close> and again from its \<^verbatim>\<open>MutationObserver\<close> for every change of
  the child lists under \<^verbatim>\<open>#app\<close>.
\<close>

definition tryInit :: "document \<Rightarrow> document" where
  "tryInit d =
     (case app d of
        None \<Rightarrow> d
      | Some c \<Rightarrow>
          (case c of
             None \<Rightarrow> d
           | Some cardEl \<Rightarrow>
               if hasDiagram (Some cardEl)
               then d\<lparr>app := Some (Some (snd (initBodyDiagram cardEl)))\<rparr>
               else d))"

text \<open>A click on the toggle control of the section in \<^verbatim>\<open>#app\<close>: its listeners run.\<close>

definition clickToggle :: "document \<Rightarrow> document" where
  "clickToggle d =
     (case app d of None \<Rightarrow> d | Some c \<Rightarrow> d\<lparr>app := Some (map_option toggleClick c)\<rparr>)"

text \<open>
  The same click on a page where \<^verbatim>\<open>src/unnamed/part_000\<close> runs. The toggle closure's
  write of \<^verbatim>\<open>textContent\<close> (line 48) replaces the button's text node, a change of a
  child list under \<^verbatim>\<open>#app\<close>, so once the listeners have run the script's observer
  (lines 85 and 86) runs \<^verbatim>\<open>tryInit\<close>. One delivery of the observer is modelled; the
  write of line 42 in that run changes the label back and makes it deliver again.
\<close>

definition clickToggle_autowire :: "document \<Rightarrow> document" where
  "clickToggle_autowire d = tryInit (clickToggle d)"

section \<open>The hotspot table of the React component\<close>

text \<open>
  \<^verbatim>\<open>MuscleRegion\<close> and \<^verbatim>\<open>SAMPLE_REGIONS\<close> (\<^verbatim>\<open>src/anatomy.js\<close>, second document,
  lines 126 to 159). The percentages are JavaScript numbers: a finite value, one of the
  two infinities, or NaN. Finite values are modelled as rationals; the rounding of a
  sum of two doubles is left out, the sums compared here being far from their bound.
\<close>

datatype jsnum = Number rat | NaN | PosInf | NegInf

text \<open>\<^verbatim>\<open>Math.min\<close> and \<^verbatim>\<open>Math.max\<close> of two numbers: NaN as soon as one of them is.\<close>

fun jsMin :: "jsnum \<Rightarrow> jsnum \<Rightarrow> jsnum" where
  "jsMin NaN y = NaN"
| "jsMin x NaN = NaN"
| "jsMin NegInf y = NegInf"
| "jsMin x NegInf = NegInf"
| "jsMin PosInf y = y"
| "jsMin x PosInf = x"
| "jsMin (Number a) (Number b) = Number (min a b)"

fun jsMax :: "jsnum \<Rightarrow> jsnum \<Rightarrow> jsnum" where
  "jsMax NaN y = NaN"
| "jsMax x NaN = NaN"
| "jsMax PosInf y = PosInf"
| "jsMax x PosInf = PosInf"
| "jsMax NegInf y = y"
| "jsMax x NegInf = x"
| "jsMax (Number a) (Number b) = Number (max a b)"

text \<open>The sum \<^verbatim>\<open>x + y\<close> and the comparison \<^verbatim>\<open>x <= y\<close>, which is false when NaN is involved.\<close>

fun jsAdd :: "jsnum \<Rightarrow> jsnum \<Rightarrow> jsnum" where
  "jsAdd NaN y = NaN"
| "jsAdd x NaN = NaN"
| "jsAdd PosInf NegInf = NaN"
| "jsAdd NegInf PosInf = NaN"
| "jsAdd PosInf y = PosInf"
| "jsAdd x PosInf = PosInf"
| "jsAdd NegInf y = NegInf"
| "jsAdd x NegInf = NegInf"
| "jsAdd (Number a) (Number b) = Number (a + b)"

fun jsLe :: "jsnum \<Rightarrow> jsnum \<Rightarrow> bool" where
  "jsLe NaN y = False"
| "jsLe x NaN = False"
| "jsLe NegInf y = True"
| "jsLe x PosInf = True"
| "jsLe PosInf y = False"
| "jsLe x NegInf = False"
| "jsLe (Number a) (Number b) = (a \<le> b)"

datatype anatomyView = Front | Back

record box =
  box_left :: jsnum
  box_top :: jsnum
  box_width :: jsnum
  box_height :: jsnum

record muscleRegion =
  key :: string
  label :: string
  view :: anatomyView
  box :: box


text \<open>
  \<^verbatim>\<open>clamp\<close> (line 162): \<^verbatim>\<open>Math.max(min, Math.min(max, n))\<close>, and the call with the
  default bounds 0 and 100 that the component makes.
\<close>

definition clamp :: "jsnum \<Rightarrow> jsnum \<Rightarrow> jsnum \<Rightarrow> jsnum" where
  "clamp n lo hi = jsMax lo (jsMin hi n)"

definition clampPct :: "jsnum \<Rightarrow> jsnum" where
  "clampPct n = clamp n (Number 0) (Number 100)"

text \<open>
  The hotspots the component renders (lines 187 to 190 and 240 to 258): the regions of
  the current view, each as a button whose style holds the four clamped percentages.
\<close>

definition filtered :: "muscleRegion list \<Rightarrow> anatomyView \<Rightarrow> muscleRegion list" where
  "filtered regions currentView = filter (\<lambda>r. view r = currentView) regions"

definition hotspotStyle :: "muscleRegion \<Rightarrow> box" where
  "hotspotStyle r =
     \<lparr>box_left = clampPct (box_left (box r)), box_top = clampPct (box_top (box r)),
      box_width = clampPct (box_width (box r)), box_height = clampPct (box_height (box r))\<rparr>"

definition hotspots :: "muscleRegion list \<Rightarrow> anatomyView \<Rightarrow> box list" where
  "hotspots regions currentView = map hotspotStyle (filtered regions currentView)"

section \<open>Observations and sample inputs\<close>

text \<open>
  A surface \<open>s'\<close> is what a successful run of a script's binder made of \<open>s\<close>.
\<close>

definition boundBy :: "script \<Rightarrow> surface \<Rightarrow> surface \<Rightarrow> bool" where
  "boundBy sc s s' =
     (case sc of
        AnatomyJs \<Rightarrow> bindDiagram (Some s) = (True, Some s')
      | AutowireJs \<Rightarrow> initBodyDiagram s = (True, s'))"

text \<open>The hit elements of both view containers, front first, as \<^verbatim>\<open>clickable\<close> lists them.\<close>

definition allHits :: "surface \<Rightarrow> hit list" where
  "allHits r =
     (case frontView r of None \<Rightarrow> [] | Some f \<Rightarrow> hits f) @
     (case backView r of None \<Rightarrow> [] | Some b \<Rightarrow> hits b)"

text \<open>Exactly one of the two views is visible; the toggle's label names the hidden one.\<close>

definition exactlyOneVisible :: "surface \<Rightarrow> bool" where
  "exactlyOneVisible r =
     (case frontView r of
        None \<Rightarrow> False
      | Some f \<Rightarrow> (case backView r of None \<Rightarrow> False | Some b \<Rightarrow> visible f \<noteq> visible b))"

definition labelNamesHiddenView :: "surface \<Rightarrow> bool" where
  "labelNamesHiddenView r =
     (case frontView r of
        None \<Rightarrow> False
      | Some f \<Rightarrow>
          (case backView r of
             None \<Rightarrow> False
           | Some b \<Rightarrow>
               (case toggleViewBtn r of
                  None \<Rightarrow> False
                | Some t \<Rightarrow>
                    (textContent t = ''Show Back View'' \<and> \<not> visible b) \<or>
                    (textContent t = ''Show Front View'' \<and> \<not> visible f))))"

text \<open>
  A freshly rendered diagram: two hit elements in the front view, one of them with an id
  the table does not map, one in the back view, and the toggle; no listener yet. The hit
  elements are HTML elements, none inside another.
\<close>

definition freshHit :: "string \<Rightarrow> hit" where
  "freshHit i =
     \<lparr>el_id = i, kind = HTMLElement, inside = None, role = None, tabIndex = - 1,
      listeners = []\<rparr>"

definition sampleSurface :: surface where
  "sampleSurface =
     \<lparr>bound = None,
      frontView = Some \<lparr>display = [], hits = [freshHit ''chest'', freshHit ''outline'']\<rparr>,
      backView = Some \<lparr>display = [], hits = [freshHit ''traps'']\<rparr>,
      toggleViewBtn = Some \<lparr>textContent = ''Toggle'', clickListeners = []\<rparr>\<rparr>"

text \<open>The same diagram without its toggle control.\<close>

definition partialSurface :: surface where
  "partialSurface = sampleSurface\<lparr>toggleViewBtn := None\<rparr>"

text \<open>The sample diagram after \<^verbatim>\<open>bindDiagram\<close> has bound it.\<close>

definition sampleBound :: surface where
  "sampleBound =
     (case snd (bindDiagram (Some sampleSurface)) of None \<Rightarrow> sampleSurface | Some s' \<Rightarrow> s')"

text \<open>
  A page on the diagram route whose \<^verbatim>\<open>#app\<close> is still empty, with the templates of two
  regions beside it, and the same page once the diagram is rendered and bound.
\<close>

definition emptyPage :: document where
  "emptyPage =
     \<lparr>hash = ''#/workouts/diagram'', app = Some None,
      byId = [(''chest-template'', Template None), (''traps-template'', Template None)],
      warnings = [], uncaught = []\<rparr>"

definition samplePage :: document where
  "samplePage = emptyPage\<lparr>app := Some (Some sampleBound)\<rparr>"

text \<open>
  Two ways the rest of the page can behave while the watcher waits: the router renders
  the sample diagram during the wait that follows the \<open>n\<close>-th miss, or nothing happens.
\<close>

definition renderAfter :: "nat \<Rightarrow> nat \<Rightarrow> document \<Rightarrow> document" where
  "renderAfter n k d = (if k = n then d\<lparr>app := Some (Some sampleSurface)\<rparr> else d)"

definition idle :: "nat \<Rightarrow> document \<Rightarrow> document" where
  "idle k d = d"

text \<open>
  A hit element whose id is a property name every object inherits, bound by
  \<^verbatim>\<open>bindDiagram\<close>, and a page that holds a template under the text of that property's
  value.
\<close>

definition constructorHit :: hit where
  "constructorHit = bindHit AnatomyJs (freshHit ''constructor'')"

definition oddPage :: document where
  "oddPage = samplePage\<lparr>byId := [(''function Object() { [native code] }'', Template None)]\<rparr>"

text \<open>A region definition, as a caller may pass in \<^verbatim>\<open>regions\<close>, that is wider than the surface.\<close>

definition wideRegion :: muscleRegion where
  "wideRegion =
     \<lparr>key = ''wide'', label = ''Wide'', view = Front,
      box = \<lparr>box_left = Number 60, box_top = Number 10, box_width = Number 60, box_height = Number 10\<rparr>\<rparr>"


text \<open>The hit elements of the front view container.\<close>

definition frontHits :: "surface \<Rightarrow> hit list" where
  "frontHits r = (case frontView r of None \<Rightarrow> [] | Some f \<Rightarrow> hits f)"

text \<open>
  A diagram whose front view holds an element with an id inside another element with
  an id, neither of them in the table; the diagram after \<^verbatim>\<open>bindDiagram\<close> has bound it;
  and a page that shows it.
\<close>

definition nestedSurface :: surface where
  "nestedSurface =
     sampleSurface
       \<lparr>frontView :=
          Some \<lparr>display = [],
                hits = [freshHit ''torso'', (freshHit ''outline'')\<lparr>inside := Some 0\<rparr>]\<rparr>\<rparr>"

definition nestedBound :: surface where
  "nestedBound =
     (case snd (bindDiagram (Some nestedSurface)) of None \<Rightarrow> nestedSurface | Some s' \<Rightarrow> s')"

definition nestedPage :: document where
  "nestedPage = emptyPage\<lparr>app := Some (Some nestedBound)\<rparr>"

text \<open>A hit element that is an SVG element, with an id of the table, bound by \<^verbatim>\<open>bindDiagram\<close>.\<close>

definition svgHit :: hit where
  "svgHit = bindHit AnatomyJs ((freshHit ''chest'')\<lparr>kind := SVGElement\<rparr>)"

text \<open>The sample diagram after \<^verbatim>\<open>initBodyDiagram\<close> has bound it, and a page that shows it.\<close>

definition autowireBound :: surface where
  "autowireBound = snd (initBodyDiagram sampleSurface)"

definition autowirePage :: document where
  "autowirePage = emptyPage\<lparr>app := Some (Some autowireBound)\<rparr>"

text \<open>A region definition whose left edge is not a number.\<close>

definition nanRegion :: muscleRegion where
  "nanRegion =
     \<lparr>key = ''nan'', label = ''NaN'', view = Front,
      box = \<lparr>box_left = NaN, box_top = Number 10, box_width = Number 10, box_height = Number 10\<rparr>\<rparr>"

section \<open>Basic facts about the binders\<close>

lemma bindDiagram_success:
  assumes "frontView s = Some f" and "backView s = Some b" and "toggleViewBtn s = Some t"
    and "bound s \<noteq> Some ''1''"
  shows "bindDiagram (Some s) =
     (True,
      Some (s\<lparr>frontView := Some (f\<lparr>display := ''block'', hits := map (bindHit AnatomyJs) (hits f)\<rparr>),
              backView := Some (b\<lparr>display := ''none'', hits := map (bindHit AnatomyJs) (hits b)\<rparr>),
              toggleViewBtn := Some (t\<lparr>textContent := ''Show Back View'',
                                       clickListeners := clickListeners t @ [True]\<rparr>),
              bound := Some ''1''\<rparr>))"
  using assms by (simp add: bindDiagram_def)

lemma bindDiagram_TrueD:
  assumes "fst (bindDiagram (Some s))"
  shows "bound s \<noteq> Some ''1'' \<and> frontView s \<noteq> None \<and> backView s \<noteq> None \<and> toggleViewBtn s \<noteq> None"
  using assms by (simp add: bindDiagram_def split: option.splits if_splits)

lemma initBodyDiagram_success:
  assumes "frontView s = Some f" and "backView s = Some b" and "toggleViewBtn s = Some t"
  shows "initBodyDiagram s =
     (True,
      s\<lparr>frontView := Some (f\<lparr>display := ''block'', hits := map (bindHit AutowireJs) (hits f)\<rparr>),
        backView := Some (b\<lparr>display := ''none'', hits := map (bindHit AutowireJs) (hits b)\<rparr>),
        toggleViewBtn := Some (t\<lparr>textContent := ''Show Back View'',
                                 clickListeners := clickListeners t @ [True]\<rparr>)\<rparr>)"
  using assms by (simp add: initBodyDiagram_def)

lemma initBodyDiagram_TrueD:
  assumes "fst (initBodyDiagram s)"
  shows "frontView s \<noteq> None \<and> backView s \<noteq> None \<and> toggleViewBtn s \<noteq> None"
  using assms by (simp add: initBodyDiagram_def split: option.splits)

text \<open>What a successful bind of either script leaves in the three parts of the surface.\<close>

lemma boundBy_shape:
  assumes "boundBy sc s s'"
  obtains f b t where "frontView s = Some f" and "backView s = Some b"
    and "toggleViewBtn s = Some t"
    and "frontView s' = Some (f\<lparr>display := ''block'', hits := map (bindHit sc) (hits f)\<rparr>)"
    and "backView s' = Some (b\<lparr>display := ''none'', hits := map (bindHit sc) (hits b)\<rparr>)"
    and "toggleViewBtn s' =
           Some (t\<lparr>textContent := ''Show Back View'', clickListeners := clickListeners t @ [True]\<rparr>)"
proof (cases sc)
  case AnatomyJs
  with assms have r: "bindDiagram (Some s) = (True, Some s')"
    by (simp add: boundBy_def)
  then have "fst (bindDiagram (Some s))"
    by simp
  from bindDiagram_TrueD [OF this] obtain f b t where
    p: "frontView s = Some f" "backView s = Some b" "toggleViewBtn s = Some t"
       "bound s \<noteq> Some ''1''"
    by auto
  from r bindDiagram_success [OF p]
  have "s' = s\<lparr>frontView := Some (f\<lparr>display := ''block'', hits := map (bindHit AnatomyJs) (hits f)\<rparr>),
              backView := Some (b\<lparr>display := ''none'', hits := map (bindHit AnatomyJs) (hits b)\<rparr>),
              toggleViewBtn := Some (t\<lparr>textContent := ''Show Back View'',
                                       clickListeners := clickListeners t @ [True]\<rparr>),
              bound := Some ''1''\<rparr>"
    by simp
  with p AnatomyJs that show ?thesis
    by simp
next
  case AutowireJs
  with assms have r: "initBodyDiagram s = (True, s')"
    by (simp add: boundBy_def)
  then have "fst (initBodyDiagram s)"
    by simp
  from initBodyDiagram_TrueD [OF this] obtain f b t where
    p: "frontView s = Some f" "backView s = Some b" "toggleViewBtn s = Some t"
    by auto
  from r initBodyDiagram_success [OF p]
  have "s' = s\<lparr>frontView := Some (f\<lparr>display := ''block'', hits := map (bindHit AutowireJs) (hits f)\<rparr>),
        backView := Some (b\<lparr>display := ''none'', hits := map (bindHit AutowireJs) (hits b)\<rparr>),
        toggleViewBtn := Some (t\<lparr>textContent := ''Show Back View'',
                                 clickListeners := clickListeners t @ [True]\<rparr>)\<rparr>"
    by simp
  with p AutowireJs that show ?thesis
    by simp
qed

section \<open>The toggle\<close>

lemma showView_showView: "showView a (showView b r) = showView a r"
  by (cases "frontView r"; cases "backView r"; cases "toggleViewBtn r")
     (simp_all add: showView_def)

text \<open>
  However many click listeners the toggle carries, what they leave behind is what the
  last one wrote.
\<close>

lemma runToggle_eq:
  "runToggle bs r = (map Not bs, if bs = [] then r else showView (\<not> last bs) r)"
  by (induction bs arbitrary: r) (auto simp: toggleHandler_def Let_def showView_showView)

lemma toggleClick_eq:
  assumes "toggleViewBtn r = Some t" and "clickListeners t \<noteq> []"
  shows "toggleClick r =
     (showView (\<not> last (clickListeners t)) r)
       \<lparr>toggleViewBtn :=
          Some (t\<lparr>textContent :=
                    (if \<not> last (clickListeners t) then ''Show Back View''
                     else ''Show Front View''),
                  clickListeners := map Not (clickListeners t)\<rparr>)\<rparr>"
  using assms by (simp add: toggleClick_def runToggle_eq showView_def)

lemma toggleClick_funpow:
  assumes "frontView r = Some f" and "backView r = Some b" and "toggleViewBtn r = Some t"
    and "display f = ''block''" and "display b = ''none''"
    and "textContent t = ''Show Back View''" and "clickListeners t = bs @ [True]"
  shows "(toggleClick ^^ N) r =
     r\<lparr>frontView := Some (f\<lparr>display := (if even N then ''block'' else ''none'')\<rparr>),
       backView := Some (b\<lparr>display := (if even N then ''none'' else ''block'')\<rparr>),
       toggleViewBtn :=
         Some (t\<lparr>textContent := (if even N then ''Show Back View'' else ''Show Front View''),
                 clickListeners := (map Not ^^ N) bs @ [even N]\<rparr>)\<rparr>"
proof (induction N)
  case 0
  show ?case
    using assms by simp
next
  case (Suc N)
  let ?t = "t\<lparr>textContent := (if even N then ''Show Back View'' else ''Show Front View''),
               clickListeners := (map Not ^^ N) bs @ [even N]\<rparr>"
  have "(toggleClick ^^ Suc N) r = toggleClick ((toggleClick ^^ N) r)"
    by simp
  also have "\<dots> =
     r\<lparr>frontView := Some (f\<lparr>display := (if even (Suc N) then ''block'' else ''none'')\<rparr>),
       backView := Some (b\<lparr>display := (if even (Suc N) then ''none'' else ''block'')\<rparr>),
       toggleViewBtn :=
         Some (t\<lparr>textContent :=
                   (if even (Suc N) then ''Show Back View'' else ''Show Front View''),
                 clickListeners := (map Not ^^ Suc N) bs @ [even (Suc N)]\<rparr>)\<rparr>"
    unfolding Suc.IH
    by (subst toggleClick_eq [where t = ?t]) (simp_all add: showView_def)
  finally show ?case .
qed

text \<open>A toggle activation leaves the marker, the hit elements and the listener count alone.\<close>

lemma toggle_frame:
  "bound (toggleClick r) = bound r
   \<and> map_option hits (frontView (toggleClick r)) = map_option hits (frontView r)
   \<and> map_option hits (backView (toggleClick r)) = map_option hits (backView r)
   \<and> toggleListeners (toggleViewBtn (toggleClick r)) = toggleListeners (toggleViewBtn r)"
  by (cases "frontView r"; cases "backView r"; cases "toggleViewBtn r")
     (auto simp: toggleClick_def runToggle_eq showView_def toggleListeners_def)

lemma toggle_frame_funpow:
  "bound ((toggleClick ^^ N) r) = bound r
   \<and> map_option hits (frontView ((toggleClick ^^ N) r)) = map_option hits (frontView r)
   \<and> map_option hits (backView ((toggleClick ^^ N) r)) = map_option hits (backView r)
   \<and> toggleListeners (toggleViewBtn ((toggleClick ^^ N) r)) = toggleListeners (toggleViewBtn r)"
  by (induction N) (simp_all add: toggle_frame)

section \<open>The retry session\<close>

text \<open>
  The equation of \<open>runTicks\<close> is used one tick at a time, so it is taken out of the
  simplifier's set.
\<close>

declare runTicks.simps [simp del]

text \<open>A tick that finds no diagram calls no binder.\<close>

lemma tick_no_surface:
  assumes "\<not> hasDiagram (querySection (page w))"
  shows "tick maxTries w = afterMiss maxTries w"
  using assms by (simp add: tick_def)

lemma pageAfter_shift:
  "pageAfter env t d (Suc k) = pageAfter env (Suc t) (env (Suc t) d) k"
  by (induction k) simp_all

lemma runTicks_miss:
  assumes "\<not> hasDiagram (querySection (page w))" and "tries w + 1 < maxTries"
  shows "runTicks maxTries delayMs env w clock =
         runTicks maxTries delayMs env
           (w\<lparr>tries := tries w + 1, page := env (tries w + 1) (page w)\<rparr>) (clock + delayMs)"
  using assms
  by (subst runTicks.simps) (simp add: tick_no_surface afterMiss_def)

lemma runTicks_last_miss:
  assumes "\<not> hasDiagram (querySection (page w))" and "maxTries \<le> tries w + 1"
  shows "runTicks maxTries delayMs env w clock = (GaveUp, w\<lparr>tries := tries w + 1\<rparr>, clock)"
  using assms
  by (subst runTicks.simps) (simp add: tick_no_surface afterMiss_def)

lemma runTicks_bind:
  assumes "querySection (page w) = Some s"
    and "frontView s \<noteq> None" and "backView s \<noteq> None" and "toggleViewBtn s \<noteq> None"
    and "bound s \<noteq> Some ''1''"
  shows "runTicks maxTries delayMs env w clock =
         (BoundOk, w\<lparr>bindCalls := bindCalls w + 1,
                     page := (page w)\<lparr>app := Some (snd (bindDiagram (Some s)))\<rparr>\<rparr>, clock)"
proof -
  from assms obtain f b t where
    p: "frontView s = Some f" "backView s = Some b" "toggleViewBtn s = Some t"
    by auto
  show ?thesis
    using assms(1) p assms(5)
    by (subst runTicks.simps) (simp add: tick_def hasDiagram_def bindDiagram_success [OF p assms(5)])
qed

text \<open>
  A run of \<open>n\<close> ticks that find no diagram, with budget left: nothing but the counter,
  the clock and the page's own changes moves.
\<close>

lemma runTicks_skip:
  assumes "\<forall>k<n. \<not> hasDiagram (querySection (pageAfter env (tries w) (page w) k))"
    and "tries w + n < maxTries"
  shows "runTicks maxTries delayMs env w clock =
         runTicks maxTries delayMs env
           (w\<lparr>tries := tries w + n, page := pageAfter env (tries w) (page w) n\<rparr>)
           (clock + n * delayMs)"
  using assms
proof (induction n arbitrary: w clock)
  case 0
  then show ?case by simp
next
  case (Suc n)
  let ?w1 = "w\<lparr>tries := tries w + 1, page := env (tries w + 1) (page w)\<rparr>"
  from Suc.prems(1) have first: "\<not> hasDiagram (querySection (page w))"
    by (metis pageAfter.simps(1) zero_less_Suc)
  have shift: "pageAfter env (tries ?w1) (page ?w1) k = pageAfter env (tries w) (page w) (Suc k)"
    for k
    by (simp add: pageAfter_shift del: pageAfter.simps)
  have rest: "\<forall>k<n. \<not> hasDiagram (querySection (pageAfter env (tries ?w1) (page ?w1) k))"
  proof (intro allI impI)
    fix k assume "k < n"
    then have "Suc k < Suc n" by simp
    with Suc.prems(1) have "\<not> hasDiagram (querySection (pageAfter env (tries w) (page w) (Suc k)))"
      by blast
    then show "\<not> hasDiagram (querySection (pageAfter env (tries ?w1) (page ?w1) k))"
      unfolding shift .
  qed
  have "runTicks maxTries delayMs env w clock = runTicks maxTries delayMs env ?w1 (clock + delayMs)"
    using first Suc.prems(2) by (simp add: runTicks_miss)
  also have "\<dots> = runTicks maxTries delayMs env
       (?w1\<lparr>tries := tries ?w1 + n, page := pageAfter env (tries ?w1) (page ?w1) n\<rparr>)
       (clock + delayMs + n * delayMs)"
    using rest Suc.prems(2) by (intro Suc.IH) simp_all
  also have "?w1\<lparr>tries := tries ?w1 + n, page := pageAfter env (tries ?w1) (page ?w1) n\<rparr>
       = w\<lparr>tries := tries w + Suc n, page := pageAfter env (tries w) (page w) (Suc n)\<rparr>"
    by (simp add: pageAfter_shift del: pageAfter.simps)
  finally show ?case by (simp add: algebra_simps)
qed

lemma watcher_binds_after:
  assumes "isDiagramRoute (hash d)"
    and "\<forall>k<n. \<not> hasDiagram (querySection (pageAfter env 0 d k))"
    and "n < maxTries"
    and "querySection (pageAfter env 0 d n) = Some s"
    and "frontView s \<noteq> None" and "backView s \<noteq> None" and "toggleViewBtn s \<noteq> None"
    and "bound s \<noteq> Some ''1''"
  shows "tryBindWithRetries maxTries delayMs env d =
     Some (BoundOk,
           \<lparr>tries = n, bindCalls = 1,
            page = (pageAfter env 0 d n)\<lparr>app := Some (snd (bindDiagram (Some s)))\<rparr>\<rparr>,
           n * delayMs)"
proof -
  let ?w0 = "\<lparr>tries = 0, bindCalls = 0, page = d\<rparr>"
  have "runTicks maxTries delayMs env ?w0 0 =
        runTicks maxTries delayMs env
          (?w0\<lparr>tries := tries ?w0 + n, page := pageAfter env (tries ?w0) (page ?w0) n\<rparr>)
          (0 + n * delayMs)"
    using assms(2,3) by (intro runTicks_skip) simp_all
  also have "\<dots> = (BoundOk,
           \<lparr>tries = n, bindCalls = 1,
            page = (pageAfter env 0 d n)\<lparr>app := Some (snd (bindDiagram (Some s)))\<rparr>\<rparr>,
           n * delayMs)"
    using assms(4-8) by (subst runTicks_bind [where s = s]) simp_all
  finally show ?thesis
    using assms(1) by (simp add: tryBindWithRetries_def)
qed

lemma watcher_gives_up:
  assumes "isDiagramRoute (hash d)"
    and "\<forall>k<Suc n. \<not> hasDiagram (querySection (pageAfter env 0 d k))"
  shows "tryBindWithRetries (Suc n) delayMs env d =
     Some (GaveUp, \<lparr>tries = Suc n, bindCalls = 0, page = pageAfter env 0 d n\<rparr>, n * delayMs)"
proof -
  let ?w0 = "\<lparr>tries = 0, bindCalls = 0, page = d\<rparr>"
  have "runTicks (Suc n) delayMs env ?w0 0 =
        runTicks (Suc n) delayMs env
          (?w0\<lparr>tries := tries ?w0 + n, page := pageAfter env (tries ?w0) (page ?w0) n\<rparr>)
          (0 + n * delayMs)"
    using assms(2) by (intro runTicks_skip) simp_all
  also have "\<dots> = (GaveUp, \<lparr>tries = Suc n, bindCalls = 0, page = pageAfter env 0 d n\<rparr>, n * delayMs)"
    using assms(2) by (subst runTicks_last_miss) simp_all
  finally show ?thesis
    using assms(1) by (simp add: tryBindWithRetries_def)
qed

section \<open>The region tables and the route: claims C9 and C3\<close>

text \<open>
  Claim C9. The two scripts each define their own muscle-to-template table; the two
  tables hold the same region ids, in the same order, mapped to the same template
  identifiers, so every lookup gives the same value in both scripts.
\<close>

theorem tables_agree:
  "muscleToTemplate_autowire = muscleToTemplate
   \<and> map_of muscleToTemplate_autowire = map_of muscleToTemplate
   \<and> getProp muscleToTemplate_autowire = getProp muscleToTemplate
   \<and> distinct (map fst muscleToTemplate)"
  by (simp add: muscleToTemplate_autowire_def muscleToTemplate_def)




section \<open>A bind with a part missing: claim C5\<close>

text \<open>
  Claim C5. When the front view container, the back view container or the toggle
  control does not resolve, the binder of either script returns false and leaves the
  surface exactly as it was: no display, label, attribute or listener changes.
\<close>

theorem bind_needs_all_three:
  assumes "frontView r = None \<or> backView r = None \<or> toggleViewBtn r = None"
  shows "bindDiagram (Some r) = (False, Some r) \<and> initBodyDiagram r = (False, r)"
  using assms by (auto simp: bindDiagram_def initBodyDiagram_def split: option.splits)

theorem bind_needs_all_three_witness:
  "toggleViewBtn partialSurface = None
   \<and> bindDiagram (Some partialSurface) = (False, Some partialSurface)
   \<and> initBodyDiagram partialSurface = (False, partialSurface)
   \<and> listenerCount partialSurface = 0"
proof -
  have h: "toggleViewBtn partialSurface = None"
    by (simp add: partialSurface_def)
  then have "frontView partialSurface = None \<or> backView partialSurface = None
      \<or> toggleViewBtn partialSurface = None"
    by simp
  from bind_needs_all_three [OF this] show ?thesis
    using h
    by (simp add: listenerCount_def toggleListeners_def hitListeners_def partialSurface_def
        sampleSurface_def freshHit_def)
qed

section \<open>Clamping the hotspot boxes: claim C6\<close>

text \<open>
  Clamping works on one percentage at a time. Its result is NaN exactly when its
  argument is, and lies between 0 and 100 otherwise.
\<close>

lemma clampPct_range:
  "clampPct n = NaN \<longleftrightarrow> n = NaN"
  "n \<noteq> NaN \<Longrightarrow> jsLe (Number 0) (clampPct n) \<and> jsLe (clampPct n) (Number 100)"
  by (cases n; simp add: clampPct_def clamp_def)+

text \<open>
  So clamping does not make a box fit that did not: a definition passed in
  \<^verbatim>\<open>regions\<close> with left 60 and width 60 is rendered as it is, from 60 to 120, and a
  left edge that is NaN stays NaN.
\<close>

lemma clamped_box_can_overflow:
  "hotspots [wideRegion] Front = [box wideRegion]
   \<and> jsAdd (box_left (hotspotStyle wideRegion)) (box_width (hotspotStyle wideRegion)) = Number 120
   \<and> \<not> jsLe (jsAdd (box_left (hotspotStyle wideRegion)) (box_width (hotspotStyle wideRegion)))
          (Number 100)
   \<and> box_left (hotspotStyle nanRegion) = NaN"
  by (simp add: wideRegion_def nanRegion_def hotspotStyle_def clampPct_def clamp_def hotspots_def
      filtered_def)



section \<open>The toggle after a bind: claims C4 and C10\<close>

lemma sampleBound_eq: "bindDiagram (Some sampleSurface) = (True, Some sampleBound)"
  by (simp add: sampleBound_def bindDiagram_def sampleSurface_def)

lemma flips_snoc:
  "(map Not ^^ N) (bs @ [c]) = (map Not ^^ N) bs @ [if even N then c else \<not> c]"
  by (induction N) auto

text \<open>
  The surface after a successful bind and \<open>N\<close> activations of the toggle: the bound
  surface with the two displays, the label and the listeners' own \<^verbatim>\<open>isFront\<close>
  variables rewritten, and nothing else.
\<close>

lemma toggled_bound_surface:
  assumes "boundBy sc s s'"
  shows "(toggleClick ^^ N) s' =
     s'\<lparr>frontView :=
          map_option (\<lambda>f. f\<lparr>display := (if even N then ''block'' else ''none'')\<rparr>)
            (frontView s'),
        backView :=
          map_option (\<lambda>b. b\<lparr>display := (if even N then ''none'' else ''block'')\<rparr>)
            (backView s'),
        toggleViewBtn :=
          map_option
            (\<lambda>t. t\<lparr>textContent :=
                      (if even N then ''Show Back View'' else ''Show Front View''),
                    clickListeners := (map Not ^^ N) (clickListeners t)\<rparr>)
            (toggleViewBtn s')\<rparr>"
proof -
  from assms obtain f b t where
    s': "frontView s' = Some (f\<lparr>display := ''block'', hits := map (bindHit sc) (hits f)\<rparr>)"
     "backView s' = Some (b\<lparr>display := ''none'', hits := map (bindHit sc) (hits b)\<rparr>)"
     "toggleViewBtn s' =
        Some (t\<lparr>textContent := ''Show Back View'', clickListeners := clickListeners t @ [True]\<rparr>)"
    by (rule boundBy_shape)
  have "(toggleClick ^^ N) s' =
     s'\<lparr>frontView := Some (f\<lparr>display := ''block'', hits := map (bindHit sc) (hits f),
                              display := (if even N then ''block'' else ''none'')\<rparr>),
        backView := Some (b\<lparr>display := ''none'', hits := map (bindHit sc) (hits b),
                             display := (if even N then ''none'' else ''block'')\<rparr>),
        toggleViewBtn :=
          Some (t\<lparr>textContent := ''Show Back View'', clickListeners := clickListeners t @ [True],
                  textContent := (if even N then ''Show Back View'' else ''Show Front View''),
                  clickListeners := (map Not ^^ N) (clickListeners t) @ [even N]\<rparr>)\<rparr>"
    by (rule toggleClick_funpow [OF s']) simp_all
  then show ?thesis
    by (simp add: s' flips_snoc)
qed

text \<open>
  Claim C4. For a surface bound by either script and every number \<open>N\<close> of toggle
  activations: the front view is shown and the back view hidden when \<open>N\<close> is even (the
  state the bind set), the reverse when \<open>N\<close> is odd; after each activation exactly one
  of the two views is visible and the label names the hidden one.
\<close>

theorem toggle_parity:
  assumes "boundBy sc s s'"
  shows "map_option display (frontView ((toggleClick ^^ N) s')) =
           Some (if even N then ''block'' else ''none'')
       \<and> map_option display (backView ((toggleClick ^^ N) s')) =
           Some (if even N then ''none'' else ''block'')
       \<and> map_option textContent (toggleViewBtn ((toggleClick ^^ N) s')) =
           Some (if even N then ''Show Back View'' else ''Show Front View'')
       \<and> exactlyOneVisible ((toggleClick ^^ N) s')
       \<and> labelNamesHiddenView ((toggleClick ^^ N) s')"
proof -
  from assms obtain f b t where
    s': "frontView s' = Some (f\<lparr>display := ''block'', hits := map (bindHit sc) (hits f)\<rparr>)"
     "backView s' = Some (b\<lparr>display := ''none'', hits := map (bindHit sc) (hits b)\<rparr>)"
     "toggleViewBtn s' =
        Some (t\<lparr>textContent := ''Show Back View'', clickListeners := clickListeners t @ [True]\<rparr>)"
    by (rule boundBy_shape)
  show ?thesis
    unfolding toggled_bound_surface [OF assms]
    by (simp add: s' exactlyOneVisible_def labelNamesHiddenView_def visible_def)
qed

theorem toggle_parity_witness:
  "boundBy AnatomyJs sampleSurface sampleBound
   \<and> map_option display (frontView ((toggleClick ^^ 3) sampleBound)) = Some ''none''
   \<and> map_option display (backView ((toggleClick ^^ 3) sampleBound)) = Some ''block''
   \<and> map_option textContent (toggleViewBtn ((toggleClick ^^ 3) sampleBound)) =
       Some ''Show Front View''
   \<and> exactlyOneVisible ((toggleClick ^^ 3) sampleBound)"
proof -
  have h: "boundBy AnatomyJs sampleSurface sampleBound"
    by (simp add: boundBy_def sampleBound_eq)
  from toggle_parity [OF h, of 3] show ?thesis
    using h by simp
qed

lemma allHits_bound:
  assumes "boundBy sc s s'"
  shows "allHits s' = map (bindHit sc) (allHits s)"
proof -
  from assms obtain f b t where
    "frontView s = Some f" "backView s = Some b"
    "frontView s' = Some (f\<lparr>display := ''block'', hits := map (bindHit sc) (hits f)\<rparr>)"
    "backView s' = Some (b\<lparr>display := ''none'', hits := map (bindHit sc) (hits b)\<rparr>)"
    by (rule boundBy_shape)
  then show ?thesis
    by (simp add: allHits_def)
qed

lemma allHits_toggle: "allHits ((toggleClick ^^ N) r) = allHits r"
  using toggle_frame_funpow [of N r]
  by (cases "frontView r"; cases "backView r";
      cases "frontView ((toggleClick ^^ N) r)"; cases "backView ((toggleClick ^^ N) r)")
     (auto simp: allHits_def)

lemma listenerCount_toggle: "listenerCount ((toggleClick ^^ N) r) = listenerCount r"
  using toggle_frame_funpow [of N r]
  by (cases "frontView r"; cases "backView r";
      cases "frontView ((toggleClick ^^ N) r)"; cases "backView ((toggleClick ^^ N) r)")
     (auto simp: listenerCount_def hitListeners_def)

text \<open>
  In \<^verbatim>\<open>src/anatomy.js\<close> nothing but the listeners runs on a toggle click.
  \<^verbatim>\<open>bindDiagram\<close> gives every element with an id in the front container and in the
  back container, the hidden one included, a keydown and a click listener, added after
  the listeners it had; any number of toggle clicks afterwards rewrites the two
  displays, the label and the listeners' own \<^verbatim>\<open>isFront\<close> variables and nothing else.
\<close>

lemma bindDiagram_covers_both_views_toggle_keeps_handlers:
  assumes "bindDiagram (Some s) = (True, Some s')"
  shows "allHits s' = map (bindHit AnatomyJs) (allHits s)
       \<and> (\<forall>h \<in> set (allHits s).
             listeners (bindHit AnatomyJs h) =
               listeners h @ [KeydownL AnatomyJs, ClickL AnatomyJs])
       \<and> map_option display (backView s') = Some ''none''
       \<and> map_option hits (backView s') =
           map_option (map (bindHit AnatomyJs) \<circ> hits) (backView s)
       \<and> (toggleClick ^^ N) s' =
           s'\<lparr>frontView :=
                map_option (\<lambda>f. f\<lparr>display := (if even N then ''block'' else ''none'')\<rparr>)
                  (frontView s'),
              backView :=
                map_option (\<lambda>b. b\<lparr>display := (if even N then ''none'' else ''block'')\<rparr>)
                  (backView s'),
              toggleViewBtn :=
                map_option
                  (\<lambda>t. t\<lparr>textContent :=
                            (if even N then ''Show Back View'' else ''Show Front View''),
                          clickListeners := (map Not ^^ N) (clickListeners t)\<rparr>)
                  (toggleViewBtn s')\<rparr>
       \<and> allHits ((toggleClick ^^ N) s') = allHits s'
       \<and> toggleListeners (toggleViewBtn ((toggleClick ^^ N) s')) =
           toggleListeners (toggleViewBtn s')
       \<and> listenerCount ((toggleClick ^^ N) s') = listenerCount s'
       \<and> bound ((toggleClick ^^ N) s') = bound s'"
proof -
  from assms have b: "boundBy AnatomyJs s s'"
    by (simp add: boundBy_def)
  then obtain f b t where
    "backView s = Some b"
    "backView s' = Some (b\<lparr>display := ''none'', hits := map (bindHit AnatomyJs) (hits b)\<rparr>)"
    by (rule boundBy_shape)
  then have "map_option display (backView s') = Some ''none''"
    and "map_option hits (backView s') =
           map_option (map (bindHit AnatomyJs) \<circ> hits) (backView s)"
    by simp_all
  moreover have "\<forall>h \<in> set (allHits s).
      listeners (bindHit AnatomyJs h) = listeners h @ [KeydownL AnatomyJs, ClickL AnatomyJs]"
    by (simp add: bindHit_def)
  ultimately show ?thesis
    using allHits_bound [OF b] allHits_toggle [of N s'] listenerCount_toggle [of N s']
      toggle_frame_funpow [of N s'] toggled_bound_surface [OF b, of N]
    by blast
qed

text \<open>
  Claim C10 says that after a successful bind a toggle activation changes only the two
  displays and the label and neither installs nor removes a handler. On a page where
  \<^verbatim>\<open>src/unnamed/part_000\<close> runs, the toggle closure's write of the label makes the
  script's own observer run \<^verbatim>\<open>tryInit\<close>, and \<^verbatim>\<open>initBodyDiagram\<close>, which keeps no
  marker, binds the surface again: after one click on the toggle of the sample diagram
  the front view is shown again, the label reads as before the click, and the hit
  elements and the toggle carry 14 listeners where the bind had left 7. On the page of
  \<^verbatim>\<open>src/anatomy.js\<close> the same click flips the view and leaves the 7 listeners.
\<close>

theorem autowire_toggle_binds_again:
  "boundBy AutowireJs sampleSurface autowireBound
   \<and> listenerCount autowireBound = 7
   \<and> map_option listenerCount (querySection (clickToggle_autowire autowirePage)) = Some 14
   \<and> map_option (map listeners \<circ> allHits) (querySection (clickToggle_autowire autowirePage)) =
       Some [[KeydownL AutowireJs, ClickL AutowireJs, KeydownL AutowireJs, ClickL AutowireJs],
             [KeydownL AutowireJs, ClickL AutowireJs, KeydownL AutowireJs, ClickL AutowireJs],
             [KeydownL AutowireJs, ClickL AutowireJs, KeydownL AutowireJs, ClickL AutowireJs]]
   \<and> map_option (map_option display \<circ> frontView) (querySection (clickToggle_autowire autowirePage)) =
       Some (Some ''block'')
   \<and> map_option (map_option textContent \<circ> toggleViewBtn)
        (querySection (clickToggle_autowire autowirePage)) = Some (Some ''Show Back View'')
   \<and> map_option listenerCount (querySection (clickToggle samplePage)) = Some 7
   \<and> map_option (map_option display \<circ> frontView) (querySection (clickToggle samplePage)) =
       Some (Some ''none'')"
  by (simp add: boundBy_def autowireBound_def autowirePage_def clickToggle_autowire_def
      clickToggle_def tryInit_def hasDiagram_def querySection_def toggleClick_def
      toggleHandler_def showView_def initBodyDiagram_def bindDiagram_def sampleSurface_def
      sampleBound_def samplePage_def emptyPage_def listenerCount_def toggleListeners_def
      hitListeners_def allHits_def bindHit_def freshHit_def Let_def)

section \<open>Keyboard and pointer activation: claim C8\<close>

text \<open>
  An element of a container's list that no other element with an id encloses is the
  whole path of its events.
\<close>

declare eventPath.simps [simp del]

lemma bindHit_inside: "inside (bindHit sc h) = inside h"
  by (simp add: bindHit_def)

lemma eventPath_top:
  assumes "i < length hs" and "inside (hs ! i) = None"
  shows "eventPath hs i = [hs ! i]"
  using assms by (subst eventPath.simps) simp

text \<open>
  On a freshly rendered surface (no listener on its hit elements yet) bound once by
  either script, every hit element has role \<^verbatim>\<open>button\<close> and tab index 0 and carries
  one keydown and one click listener. For such an element that is an HTML element and
  lies inside no other hit element, a click runs the click closure once, and a keydown
  with Enter or Space prevents the default and leaves the page exactly as a click on
  the element does.
\<close>

lemma keyboard_same_as_pointer:
  assumes "boundBy sc s s'"
    and "list_all (\<lambda>h. listeners h = []) (allHits s)"
    and "h \<in> set (allHits s')"
    and "k = ''Enter'' \<or> k = '' ''"
  shows "role h = Some ''button'' \<and> tabIndex h = 0
       \<and> listeners h = [KeydownL sc, ClickL sc]
       \<and> clickEvent [h] d = report (clickHandler sc h d)
       \<and> (kind h = HTMLElement \<longrightarrow> keydownEvent k [h] d = (True, clickEvent [h] d))"
proof -
  from assms(3) allHits_bound [OF assms(1)] obtain h0 where
    h0: "h0 \<in> set (allHits s)" and h: "h = bindHit sc h0"
    by auto
  from h0 assms(2) have "listeners h0 = []"
    by (simp add: list_all_iff)
  with h assms(4) show ?thesis
    by (auto simp: bindHit_def keydownEvent_def keydownHandler_def)
qed

text \<open>Any other key changes nothing, whatever the path and its listeners.\<close>

lemma other_keys_ignored:
  assumes "k \<noteq> ''Enter''" and "k \<noteq> '' ''"
  shows "keydownEvent k path d = (False, d)"
proof -
  have one: "runKeydown k el outer ls st = st" for el outer ls st
  proof (induction ls arbitrary: st)
    case Nil
    show ?case
      by simp
  next
    case (Cons l ls)
    then show ?case
      using assms by (cases l) (simp_all add: keydownHandler_def)
  qed
  have "keydownBubble k path st = st" for st
    by (induction path arbitrary: st) (simp_all add: one)
  then show ?thesis
    by (simp add: keydownEvent_def)
qed

text \<open>
  On an element that \<^verbatim>\<open>initBodyDiagram\<close> has bound twice, a click runs the click
  closure twice and an Enter keydown four times.
\<close>

lemma rebound_keyboard_runs_more:
  "length (warnings (clickEvent [bindHit AutowireJs (bindHit AutowireJs (freshHit ''outline''))]
      emptyPage)) = 2
   \<and> length (warnings (snd (keydownEvent ''Enter''
        [bindHit AutowireJs (bindHit AutowireJs (freshHit ''outline''))] emptyPage))) = 4"
  by (simp add: bindHit_def freshHit_def keydownEvent_def keydownHandler_def getProp_def
      muscleToTemplate_autowire_def objectPrototype_def inheritedFunctions_def warn_def
      emptyPage_def)

text \<open>
  On an SVG element, which has no \<^verbatim>\<open>click\<close> method, a click changes the route and an
  Enter keydown only leaves an uncaught exception.
\<close>

lemma svg_keydown_throws:
  "hash (clickEvent [svgHit] samplePage) = ''#/workouts/diagram/chest''
   \<and> keydownEvent ''Enter'' [svgHit] samplePage = (True, samplePage\<lparr>uncaught := [TypeError]\<rparr>)"
  by (simp add: svgHit_def bindHit_def freshHit_def keydownEvent_def keydownHandler_def
      getProp_def muscleToTemplate_def showTemplate_def getElementById_def samplePage_def
      emptyPage_def routeOf_def ROUTE_PREFIX_def)

text \<open>
  Claim C8 says that on every bound hit element a keyboard activation triggers the same
  handler as a pointer activation, with the same observable effect. In the front view
  of \<open>nestedSurface\<close> the element \<^verbatim>\<open>outline\<close> lies inside the element \<^verbatim>\<open>torso\<close>;
  \<^verbatim>\<open>bindDiagram\<close> gives both, once, a keydown and a click listener. A pointer click on
  \<^verbatim>\<open>outline\<close> runs the click closure of \<^verbatim>\<open>outline\<close> and, as the event bubbles, that of
  \<^verbatim>\<open>torso\<close>: two warnings. An Enter keydown on \<^verbatim>\<open>outline\<close> does the same through
  \<^verbatim>\<open>outline.click()\<close> and then bubbles itself to the keydown closure of \<^verbatim>\<open>torso\<close>,
  which calls \<^verbatim>\<open>torso.click()\<close>: the click closure of \<^verbatim>\<open>torso\<close> runs a second time,
  three warnings.
\<close>

theorem nested_keydown_runs_outer_twice:
  "bindDiagram (Some nestedSurface) = (True, Some nestedBound)
   \<and> map el_id (eventPath (frontHits nestedBound) 1) = [''outline'', ''torso'']
   \<and> map listeners (eventPath (frontHits nestedBound) 1) =
       [[KeydownL AnatomyJs, ClickL AnatomyJs], [KeydownL AnatomyJs, ClickL AnatomyJs]]
   \<and> map role (eventPath (frontHits nestedBound) 1) = [Some ''button'', Some ''button'']
   \<and> map kind (eventPath (frontHits nestedBound) 1) = [HTMLElement, HTMLElement]
   \<and> warnings (clickEvent (eventPath (frontHits nestedBound) 1) nestedPage) =
       [(''No template mapped for'', ''outline''), (''No template mapped for'', ''torso'')]
   \<and> warnings (snd (keydownEvent ''Enter'' (eventPath (frontHits nestedBound) 1) nestedPage)) =
       [(''No template mapped for'', ''outline''), (''No template mapped for'', ''torso''),
        (''No template mapped for'', ''torso'')]"
proof -
  have b: "bindDiagram (Some nestedSurface) = (True, Some nestedBound)"
    by (simp add: nestedBound_def bindDiagram_def nestedSurface_def sampleSurface_def)
  have fh: "frontHits nestedBound =
      [bindHit AnatomyJs (freshHit ''torso''),
       bindHit AnatomyJs ((freshHit ''outline'')\<lparr>inside := Some 0\<rparr>)]"
    by (simp add: frontHits_def nestedBound_def bindDiagram_def nestedSurface_def
        sampleSurface_def)
  have top: "eventPath (frontHits nestedBound) 0 = [bindHit AnatomyJs (freshHit ''torso'')]"
    unfolding fh by (subst eventPath.simps) (simp add: bindHit_def freshHit_def)
  have p: "eventPath (frontHits nestedBound) 1 =
      [bindHit AnatomyJs ((freshHit ''outline'')\<lparr>inside := Some 0\<rparr>),
       bindHit AnatomyJs (freshHit ''torso'')]"
    unfolding fh
    by (subst eventPath.simps) (simp add: top [unfolded fh] bindHit_inside)
  have u: "getProp muscleToTemplate ''outline'' = Undefined"
    "getProp muscleToTemplate ''torso'' = Undefined"
    by (simp_all add: getProp_def muscleToTemplate_def objectPrototype_def
        inheritedFunctions_def)
  show ?thesis
    using b unfolding p
    by (simp add: u bindHit_def freshHit_def keydownEvent_def keydownHandler_def warn_def
        nestedPage_def emptyPage_def)
qed

section \<open>The retry session: claim C2\<close>

lemma pageAfter_idle: "pageAfter idle t d k = d"
  by (induction k) (simp_all add: idle_def)

lemma pageAfter_renderAfter_before:
  "t + k < n \<Longrightarrow> pageAfter (renderAfter n) t d k = d"
  by (induction k) (simp_all add: renderAfter_def)

lemma pageAfter_renderAfter_at:
  "pageAfter (renderAfter (Suc n)) 0 d (Suc n) = d\<lparr>app := Some (Some sampleSurface)\<rparr>"
  by (simp add: renderAfter_def pageAfter_renderAfter_before)

text \<open>
  A surface that holds a view container but not yet its toggle counts as found: the
  tick hands it to \<^verbatim>\<open>bindDiagram\<close>, which returns false, and the attempt is counted.
\<close>

lemma partial_surface_is_tried:
  "hasDiagram (Some partialSurface)
   \<and> tick 40 \<lparr>tries = 0, bindCalls = 0, page = emptyPage\<lparr>app := Some (Some partialSurface)\<rparr>\<rparr> =
       (Scheduled,
        \<lparr>tries = 1, bindCalls = 1, page = emptyPage\<lparr>app := Some (Some partialSurface)\<rparr>\<rparr>)"
  by (simp add: tick_def hasDiagram_def querySection_def partialSurface_def sampleSurface_def
      bindDiagram_def afterMiss_def Let_def)

text \<open>
  Claim C2. A tick that finds no diagram surface in the container calls no binder,
  counts one attempt and leaves the page alone. With the budget of 40 ticks at 50 ms, on
  a diagram route: when the first four ticks find no diagram and the fifth finds a
  complete, unbound surface, the session ends bound on the fifth tick, 200 ms after the
  first, with four misses counted and exactly one call of \<^verbatim>\<open>bindDiagram\<close>; when none
  of the 40 ticks finds a diagram, the session gives up after the fortieth with no call
  of \<^verbatim>\<open>bindDiagram\<close> and the page as the rest of the page left it (no warning line,
  no exception).
\<close>

theorem retry_session:
  "(\<not> hasDiagram (querySection (page w)) \<longrightarrow>
      tick maxTries w = afterMiss maxTries w
      \<and> bindCalls (snd (tick maxTries w)) = bindCalls w
      \<and> tries (snd (tick maxTries w)) = tries w + 1
      \<and> page (snd (tick maxTries w)) = page w)
   \<and> (isDiagramRoute (hash d)
       \<and> (\<forall>k<4. \<not> hasDiagram (querySection (pageAfter env 0 d k)))
       \<and> querySection (pageAfter env 0 d 4) = Some s
       \<and> frontView s \<noteq> None \<and> backView s \<noteq> None \<and> toggleViewBtn s \<noteq> None
       \<and> bound s \<noteq> Some ''1'' \<longrightarrow>
      fst (bindDiagram (Some s))
      \<and> tryBindWithRetries 40 50 env d =
          Some (BoundOk,
                \<lparr>tries = 4, bindCalls = 1,
                 page = (pageAfter env 0 d 4)\<lparr>app := Some (snd (bindDiagram (Some s)))\<rparr>\<rparr>,
                200))
   \<and> (isDiagramRoute (hash d')
       \<and> (\<forall>k<40. \<not> hasDiagram (querySection (pageAfter env' 0 d' k))) \<longrightarrow>
      tryBindWithRetries 40 50 env' d' =
        Some (GaveUp, \<lparr>tries = 40, bindCalls = 0, page = pageAfter env' 0 d' 39\<rparr>, 1950))"
proof (intro conjI impI)
  assume "\<not> hasDiagram (querySection (page w))"
  then have t: "tick maxTries w = afterMiss maxTries w"
    by (rule tick_no_surface)
  show "tick maxTries w = afterMiss maxTries w"
    by (rule t)
  show "bindCalls (snd (tick maxTries w)) = bindCalls w"
    by (simp add: t afterMiss_def Let_def)
  show "tries (snd (tick maxTries w)) = tries w + 1"
    by (simp add: t afterMiss_def Let_def)
  show "page (snd (tick maxTries w)) = page w"
    by (simp add: t afterMiss_def Let_def)
next
  assume a: "isDiagramRoute (hash d)
       \<and> (\<forall>k<4. \<not> hasDiagram (querySection (pageAfter env 0 d k)))
       \<and> querySection (pageAfter env 0 d 4) = Some s
       \<and> frontView s \<noteq> None \<and> backView s \<noteq> None \<and> toggleViewBtn s \<noteq> None
       \<and> bound s \<noteq> Some ''1''"
  then obtain f b t where
    p: "frontView s = Some f" "backView s = Some b" "toggleViewBtn s = Some t"
       "bound s \<noteq> Some ''1''"
    by auto
  show "fst (bindDiagram (Some s))"
    by (simp add: bindDiagram_success [OF p])
  have "tryBindWithRetries 40 50 env d =
          Some (BoundOk,
                \<lparr>tries = 4, bindCalls = 1,
                 page = (pageAfter env 0 d 4)\<lparr>app := Some (snd (bindDiagram (Some s)))\<rparr>\<rparr>,
                4 * 50)"
    using a by (intro watcher_binds_after) simp_all
  then show "tryBindWithRetries 40 50 env d =
          Some (BoundOk,
                \<lparr>tries = 4, bindCalls = 1,
                 page = (pageAfter env 0 d 4)\<lparr>app := Some (snd (bindDiagram (Some s)))\<rparr>\<rparr>,
                200)"
    by simp
next
  assume a: "isDiagramRoute (hash d')
       \<and> (\<forall>k<40. \<not> hasDiagram (querySection (pageAfter env' 0 d' k)))"
  have "tryBindWithRetries (Suc 39) 50 env' d' =
        Some (GaveUp, \<lparr>tries = Suc 39, bindCalls = 0, page = pageAfter env' 0 d' 39\<rparr>, 39 * 50)"
    using a by (intro watcher_gives_up) simp_all
  then show "tryBindWithRetries 40 50 env' d' =
        Some (GaveUp, \<lparr>tries = 40, bindCalls = 0, page = pageAfter env' 0 d' 39\<rparr>, 1950)"
    by simp
qed

theorem retry_session_witness:
  "tick 40 \<lparr>tries = 0, bindCalls = 0, page = emptyPage\<rparr> =
     (Scheduled, \<lparr>tries = 1, bindCalls = 0, page = emptyPage\<rparr>)
   \<and> tryBindWithRetries 40 50 (renderAfter 4) emptyPage =
       Some (BoundOk, \<lparr>tries = 4, bindCalls = 1, page = samplePage\<rparr>, 200)
   \<and> tryBindWithRetries 40 50 idle emptyPage =
       Some (GaveUp, \<lparr>tries = 40, bindCalls = 0, page = emptyPage\<rparr>, 1950)"
proof -
  let ?w = "\<lparr>tries = 0, bindCalls = 0, page = emptyPage\<rparr>"
  have none: "\<not> hasDiagram (querySection emptyPage)"
    by (simp add: hasDiagram_def querySection_def emptyPage_def)
  have route: "isDiagramRoute (hash emptyPage)"
    by (simp add: isDiagramRoute_def ROUTE_PREFIX_def emptyPage_def)
  have before: "\<forall>k<4. \<not> hasDiagram (querySection (pageAfter (renderAfter 4) 0 emptyPage k))"
    using none by (simp add: pageAfter_renderAfter_before)
  have "pageAfter (renderAfter (Suc 3)) 0 emptyPage (Suc 3) =
        emptyPage\<lparr>app := Some (Some sampleSurface)\<rparr>"
    by (rule pageAfter_renderAfter_at)
  then have at: "pageAfter (renderAfter 4) 0 emptyPage 4 =
        emptyPage\<lparr>app := Some (Some sampleSurface)\<rparr>"
    by simp
  have sect: "querySection (pageAfter (renderAfter 4) 0 emptyPage 4) = Some sampleSurface"
    by (simp add: at querySection_def)
  have parts: "frontView sampleSurface \<noteq> None \<and> backView sampleSurface \<noteq> None
      \<and> toggleViewBtn sampleSurface \<noteq> None \<and> bound sampleSurface \<noteq> Some ''1''"
    by (simp add: sampleSurface_def)
  have never: "\<forall>k<40. \<not> hasDiagram (querySection (pageAfter idle 0 emptyPage k))"
    using none by (simp add: pageAfter_idle)
  have first: "afterMiss 40 ?w = (Scheduled, \<lparr>tries = 1, bindCalls = 0, page = emptyPage\<rparr>)"
    by (simp add: afterMiss_def Let_def)
  from retry_session [of ?w 40 emptyPage "renderAfter 4" sampleSurface emptyPage idle]
  show ?thesis
    using none route before sect parts never
    by (simp add: first at pageAfter_idle sampleBound_eq samplePage_def)
qed

section \<open>Binding the same surface again: claim C1\<close>

text \<open>
  \<^verbatim>\<open>bindDiagram\<close> called again on what its first call left returns false and changes
  nothing, whatever the first call did; so any number of repeated calls leaves what the
  first one left.
\<close>

lemma bindDiagram_second_call:
  "bindDiagram (snd (bindDiagram r)) = (False, snd (bindDiagram r))"
proof (cases r)
  case None
  then show ?thesis
    by (simp add: bindDiagram_def)
next
  case (Some s)
  show ?thesis
  proof (cases "fst (bindDiagram (Some s))")
    case True
    from bindDiagram_TrueD [OF True] obtain f b t where
      p: "frontView s = Some f" "backView s = Some b" "toggleViewBtn s = Some t"
         "bound s \<noteq> Some ''1''"
      by auto
    show ?thesis
      unfolding Some bindDiagram_success [OF p]
      by (simp add: bindDiagram_def)
  next
    case False
    then have "bindDiagram (Some s) = (False, Some s)"
      by (simp add: bindDiagram_def split: option.splits if_splits)
    then show ?thesis
      by (simp add: Some)
  qed
qed

lemma bindDiagram_repeated:
  "((\<lambda>r. snd (bindDiagram r)) ^^ Suc n) r = snd (bindDiagram r)"
  by (induction n) (simp_all add: bindDiagram_second_call)

text \<open>
  Claim C1 says that a second bind of the same surface instance returns false and
  installs nothing. \<^verbatim>\<open>bindDiagram\<close> does so (the two lemmas above). \<^verbatim>\<open>initBodyDiagram\<close>
  keeps no marker: called again on the sample surface, as \<^verbatim>\<open>tryInit\<close> does for every
  change under \<^verbatim>\<open>#app\<close>, it returns true again and every hit element and the toggle
  carry their listeners twice, 14 listeners where the first call left 7.
\<close>

theorem initBodyDiagram_binds_again:
  "fst (initBodyDiagram sampleSurface)
   \<and> listenerCount (snd (initBodyDiagram sampleSurface)) = 7
   \<and> fst (initBodyDiagram (snd (initBodyDiagram sampleSurface)))
   \<and> listenerCount (snd (initBodyDiagram (snd (initBodyDiagram sampleSurface)))) = 14
   \<and> map listeners (allHits (snd (initBodyDiagram (snd (initBodyDiagram sampleSurface))))) =
       [[KeydownL AutowireJs, ClickL AutowireJs, KeydownL AutowireJs, ClickL AutowireJs],
        [KeydownL AutowireJs, ClickL AutowireJs, KeydownL AutowireJs, ClickL AutowireJs],
        [KeydownL AutowireJs, ClickL AutowireJs, KeydownL AutowireJs, ClickL AutowireJs]]
   \<and> querySection (tryInit (tryInit (emptyPage\<lparr>app := Some (Some sampleSurface)\<rparr>))) =
       Some (snd (initBodyDiagram (snd (initBodyDiagram sampleSurface))))
   \<and> bindDiagram (Some sampleBound) = (False, Some sampleBound)
   \<and> listenerCount sampleBound = 7"
  by (simp add: initBodyDiagram_def sampleSurface_def listenerCount_def toggleListeners_def
      hitListeners_def bindHit_def freshHit_def allHits_def tryInit_def hasDiagram_def
      querySection_def emptyPage_def sampleBound_def bindDiagram_def)

section \<open>Activating an element the table does not map: claim C7\<close>

lemma tables_equal: "muscleToTemplate_autowire = muscleToTemplate"
  by (simp add: muscleToTemplate_autowire_def muscleToTemplate_def)

text \<open>
  When the table lookup gives \<^verbatim>\<open>undefined\<close>, a click on a once-bound HTML element
  that lies inside no other hit element writes one warning and changes nothing else, and
  so does an Enter or Space keydown.
\<close>

lemma unmapped_click_warns:
  assumes "getProp muscleToTemplate (el_id h) = Undefined"
    and "listeners h = [KeydownL sc, ClickL sc]" and "kind h = HTMLElement"
  shows "click h d = warn (el_id h) d
       \<and> keydownEvent ''Enter'' [h] d = (True, warn (el_id h) d)
       \<and> keydownEvent '' '' [h] d = (True, warn (el_id h) d)
       \<and> hash (click h d) = hash d \<and> app (click h d) = app d
       \<and> uncaught (click h d) = uncaught d"
  using assms
  by (cases sc)
     (simp_all add: click_def keydownEvent_def keydownHandler_def tables_equal warn_def)

text \<open>
  The lookup gives \<^verbatim>\<open>undefined\<close> for every id except the thirteen keys of the table
  and the twelve property names an object literal inherits.
\<close>

lemma getProp_Undefined_iff:
  "getProp muscleToTemplate i = Undefined \<longleftrightarrow>
     map_of muscleToTemplate i = None \<and> i \<noteq> ''constructor'' \<and> i \<noteq> ''__proto__''
     \<and> i \<notin> set inheritedFunctions"
  by (auto simp: getProp_def objectPrototype_def split: option.splits)

text \<open>
  Claim C7 says that activating a hit element whose id has no entry in the table
  changes no route, throws nothing and only writes a warning. For the id
  \<^verbatim>\<open>constructor\<close>, which has no entry, \<^verbatim>\<open>muscleToTemplate[el.id]\<close> is the inherited
  \<^verbatim>\<open>Object\<close> function, which is truthy: the click closure calls \<^verbatim>\<open>showTemplate\<close>
  with it and writes no warning. On the sample page nothing at all happens; on a page
  that holds a template under that function's text, \<^verbatim>\<open>#app\<close> is replaced and
  \<^verbatim>\<open>tplId.replace\<close> throws.
\<close>

theorem inherited_name_skips_warning:
  "map_of muscleToTemplate ''constructor'' = None
   \<and> getProp muscleToTemplate ''constructor'' = NativeFn ''Object''
   \<and> listeners constructorHit = [KeydownL AnatomyJs, ClickL AnatomyJs]
   \<and> click constructorHit samplePage = samplePage
   \<and> warnings (click constructorHit samplePage) = []
   \<and> click constructorHit oddPage = oddPage\<lparr>app := Some None, uncaught := [TypeError]\<rparr>"
  by (simp add: constructorHit_def bindHit_def freshHit_def click_def getProp_def
      objectPrototype_def muscleToTemplate_def showTemplate_def getElementById_def
      samplePage_def emptyPage_def oddPage_def)

end
